theory Spec2Isabelle
  imports Main "HOL-Library.AList" "HOL-Library.Sublist"
begin

section \<open>Python values used by check-gpu-node.py\<close>

text \<open>
  Python's \<^verbatim>\<open>needle in haystack\<close> on strings: the needle occurs as a contiguous
  substring. The empty needle occurs in every string.
\<close>

fun py_in :: "string \<Rightarrow> string \<Rightarrow> bool" where
  "py_in needle [] = (needle = [])"
| "py_in needle (c # cs) = (take (length needle) (c # cs) = needle \<or> py_in needle cs)"

text \<open>
  Python's \<^verbatim>\<open>int(s)\<close> on a string. On a string of one to 640 ASCII digits and nothing
  else it returns the decimal value, whatever the interpreter's version and settings (the
  limit on the number of digits applies to longer strings only). What \<^verbatim>\<open>int\<close> does
  with any other string (signs, spaces, underscores, digits beyond ASCII, longer strings)
  is not fixed here: it is the parameter \<open>int_other\<close>, which is \<open>None\<close> where
  \<^verbatim>\<open>int\<close> raises.
\<close>

definition is_ascii_digit :: "char \<Rightarrow> bool" where
  "is_ascii_digit c = (let n = (of_char c :: nat) in 48 \<le> n \<and> n \<le> 57)"

fun decimal :: "nat \<Rightarrow> string \<Rightarrow> nat" where
  "decimal acc [] = acc"
| "decimal acc (c # cs) = decimal (10 * acc + (of_char c - 48)) cs"

definition py_int :: "(string \<Rightarrow> int option) \<Rightarrow> string \<Rightarrow> int option" where
  "py_int int_other s =
     (if s \<noteq> [] \<and> length s \<le> 640 \<and> list_all is_ascii_digit s
      then Some (int (decimal 0 s))
      else int_other s)"

text \<open>
  \<^verbatim>\<open>time.sleep(secs)\<close> first converts its argument and raises OverflowError when it
  is out of the range of the platform's clock; it then raises ValueError for a negative
  argument; otherwise it blocks for that long, unless the platform refuses the delay
  (OSError). Where the platform's limits lie is not fixed here: \<open>os_sleep\<close> is the
  parameter that says so, \<open>None\<close> for an argument within the limits and the exception
  for one beyond them. A negative argument never completes.
\<close>

datatype py_exception = ValueError | OverflowError | OSError

definition time_sleep :: "(int \<Rightarrow> py_exception option) \<Rightarrow> int \<Rightarrow> py_exception option" where
  "time_sleep os_sleep secs =
     (case os_sleep secs of
        Some exn \<Rightarrow> Some exn
      | None \<Rightarrow> if secs < 0 then Some ValueError else None)"

text \<open>
  For the examples: a platform with every delay of the examples within its limits (the
  examples ask for -1, 1 and 30 seconds), and an \<^verbatim>\<open>int\<close> that raises on every string that is not
  a short string of ASCII digits (the examples parse "0", "1", "2" and "abc"; \<open>py_int\<close>
  consults it for "abc" only, on which \<^verbatim>\<open>int\<close> does raise).
\<close>

definition no_sleep_error :: "int \<Rightarrow> py_exception option" where
  "no_sleep_error secs = None"

definition no_other_int :: "string \<Rightarrow> int option" where
  "no_other_int s = None"

section \<open>Notification delivery: send_slack_message\<close>

text \<open>
  What one call of \<^verbatim>\<open>requests.post\<close> can do, as far as the handlers of
  \<^verbatim>\<open>send_slack_message\<close> tell the cases apart: return a response (status code and
  body text), raise ConnectionError or Timeout (first handler), raise another
  RequestException (second handler), or raise any other Exception (third handler). The
  string of an exception is \<^verbatim>\<open>str(e)\<close>.
\<close>

datatype response =
    HttpResponse int string
  | ConnectionError string
  | Timeout string
  | RequestException string
  | OtherException string

record payload =
  text_field :: string
  username :: string
  icon_emoji :: string

text \<open>
  The lines written to stderr, one constructor per \<^verbatim>\<open>print\<close> statement of the
  function (source lines 81, 84, 90, 91, 95 and 98/103/108), with the values the
  message interpolates.
\<close>

datatype log_line =
    LogSentAfterRetry nat
  | LogHttpFailure int string
  | LogAttemptFailed nat int string
  | LogRetryWait int
  | LogFinalFailure string
  | LogFailure string

text \<open>
  The observable effects of a delivery, in order: a POST (attempt number, URL, JSON
  body), a completed blocking sleep, a line on stderr.
\<close>

datatype event =
    Post nat string payload
  | Sleep int
  | Log log_line

type_synonym run = "(py_exception + bool) \<times> event list"

definition emit :: "event list \<Rightarrow> run \<Rightarrow> run" where
  "emit es r = (fst r, es @ snd r)"

definition retryable :: "string \<Rightarrow> bool" where
  "retryable e = (py_in ''Connection reset by peer'' e \<or> py_in ''Connection aborted'' e)"

text \<open>
  The handler of ConnectionError and Timeout (source lines 86-99). A sleep that raises
  does so inside the handler, so no sibling handler catches it and the exception leaves
  the function.
\<close>

definition on_network_error ::
  "(int \<Rightarrow> py_exception option) \<Rightarrow> nat \<Rightarrow> int \<Rightarrow> int \<Rightarrow> string \<Rightarrow> run \<Rightarrow> run" where
  "on_network_error os_sleep attempt max_retries retry_delay e continue =
     (if retryable e then
        if int attempt < max_retries then
          (case time_sleep os_sleep retry_delay of
             Some exn \<Rightarrow>
               (Inl exn,
                [Log (LogAttemptFailed (attempt + 1) (max_retries + 1) e),
                 Log (LogRetryWait retry_delay)])
           | None \<Rightarrow>
               emit [Log (LogAttemptFailed (attempt + 1) (max_retries + 1) e),
                     Log (LogRetryWait retry_delay),
                     Sleep retry_delay] continue)
        else (Inr False, [Log (LogFinalFailure e)])
      else (Inr False, [Log (LogFailure e)]))"

text \<open>
  The loop \<^verbatim>\<open>for attempt in range(max_retries + 1)\<close> (source lines 71-111), as a
  recursion over the attempt numbers still to come. \<open>post\<close> is the webhook: what the
  POST of each attempt does; \<open>os_sleep\<close> is the platform's sleep. A response with a status other than 200 is logged and the
  body of the loop ends there, so the loop goes on to the next attempt.
\<close>

fun attempt_loop ::
  "string \<Rightarrow> payload \<Rightarrow> (nat \<Rightarrow> response) \<Rightarrow> (int \<Rightarrow> py_exception option) \<Rightarrow>
     int \<Rightarrow> int \<Rightarrow> nat list \<Rightarrow> run" where
  "attempt_loop url body post os_sleep max_retries retry_delay [] = (Inr False, [])"
| "attempt_loop url body post os_sleep max_retries retry_delay (attempt # rest) =
     emit [Post attempt url body]
       (case post attempt of
          HttpResponse status_code txt \<Rightarrow>
            if status_code = 200 then
              (Inr True, if attempt > 0 then [Log (LogSentAfterRetry (attempt + 1))] else [])
            else
              emit [Log (LogHttpFailure status_code txt)]
                (attempt_loop url body post os_sleep max_retries retry_delay rest)
        | ConnectionError e \<Rightarrow>
            on_network_error os_sleep attempt max_retries retry_delay e
              (attempt_loop url body post os_sleep max_retries retry_delay rest)
        | Timeout e \<Rightarrow>
            on_network_error os_sleep attempt max_retries retry_delay e
              (attempt_loop url body post os_sleep max_retries retry_delay rest)
        | RequestException e \<Rightarrow> (Inr False, [Log (LogFailure e)])
        | OtherException e \<Rightarrow> (Inr False, [Log (LogFailure e)]))"

text \<open>\<^verbatim>\<open>range(n)\<close> for a Python int: empty when \<open>n \<le> 0\<close>.\<close>

definition py_range :: "int \<Rightarrow> nat list" where
  "py_range n = [0 ..< nat n]"

text \<open>
  \<^verbatim>\<open>send_slack_message(webhook_url, message, username, max_retries, retry_delay)\<close>.
  The URL is \<open>None\<close> when the caller has none (\<^verbatim>\<open>get_slack_webhook_url\<close> returns
  Optional[str]); \<^verbatim>\<open>not webhook_url\<close> holds for None and for the empty string.
\<close>

definition send_slack_message ::
  "string option \<Rightarrow> string \<Rightarrow> string \<Rightarrow> (nat \<Rightarrow> response) \<Rightarrow>
     (int \<Rightarrow> py_exception option) \<Rightarrow> int \<Rightarrow> int \<Rightarrow> run" where
  "send_slack_message webhook_url message user post os_sleep max_retries retry_delay =
     (case webhook_url of
        None \<Rightarrow> (Inr False, [])
      | Some url \<Rightarrow>
          if url = [] then (Inr False, [])
          else attempt_loop url
                 \<lparr>text_field = message, username = user, icon_emoji = '':robot_face:''\<rparr>
                 post os_sleep max_retries retry_delay (py_range (max_retries + 1)))"

text \<open>Reading a run: the attempts made, the sleeps completed, the lines logged.\<close>

fun posts :: "event list \<Rightarrow> nat list" where
  "posts [] = []"
| "posts (Post a u b # es) = a # posts es"
| "posts (e # es) = posts es"

fun sleeps :: "event list \<Rightarrow> int list" where
  "sleeps [] = []"
| "sleeps (Sleep d # es) = d # sleeps es"
| "sleeps (e # es) = sleeps es"

fun logs :: "event list \<Rightarrow> log_line list" where
  "logs [] = []"
| "logs (Log l # es) = l # logs es"
| "logs (e # es) = logs es"


text \<open>A webhook given by a script: the replies to the first POSTs, then one reply forever.\<close>

definition scripted :: "response list \<Rightarrow> response \<Rightarrow> nat \<Rightarrow> response" where
  "scripted rs r attempt = (if attempt < length rs then rs ! attempt else r)"

section \<open>Node classification and aggregation\<close>

text \<open>
  The node objects of the Kubernetes client, with the fields the script reads. An
  optional attribute is an \<open>option\<close>; a dict is an association list in insertion order
  (\<^verbatim>\<open>d.get(k)\<close> is \<open>map_of d k\<close>). Capacity values are the client's quantity
  strings. Every element of a condition list is a V1NodeCondition, so the
  \<^verbatim>\<open>isinstance\<close> test of \<^verbatim>\<open>is_ready\<close> holds for each.
\<close>

record V1NodeCondition =
  cond_type :: string
  cond_status :: string

record V1NodeStatus =
  status_conditions :: "V1NodeCondition list option"
  status_capacity :: "(string \<times> string) list option"

record V1ObjectMeta =
  meta_name :: "string option"
  meta_labels :: "(string \<times> string) list option"

record V1Taint =
  taint_key :: string
  taint_value :: "string option"
  taint_effect :: string

record V1NodeSpec =
  spec_taints :: "V1Taint list option"

record V1Node =
  node_metadata :: "V1ObjectMeta option"
  node_spec :: "V1NodeSpec option"
  node_status :: "V1NodeStatus option"

definition GPU_RESOURCE_KEYS :: "string list" where
  "GPU_RESOURCE_KEYS =
     [''nvidia.com/gpu'', ''amd.com/gpu'', ''gpu.intel.com/i915'', ''intel.com/gpu'']"

text \<open>\<^verbatim>\<open>is_ready\<close> (source lines 172-178): the loop returns at the first match.\<close>

fun ready_scan :: "V1NodeCondition list \<Rightarrow> bool" where
  "ready_scan [] = False"
| "ready_scan (cond # conds) =
     (if cond_type cond = ''Ready'' \<and> cond_status cond = ''True'' then True
      else ready_scan conds)"

definition is_ready :: "V1Node \<Rightarrow> bool" where
  "is_ready node =
     (case node_status node of
        None \<Rightarrow> False
      | Some st \<Rightarrow>
          (case status_conditions st of
             None \<Rightarrow> False
           | Some conds \<Rightarrow> if conds = [] then False else ready_scan conds))"

text \<open>
  \<^verbatim>\<open>gpu_capacity\<close> (source lines 181-196). The loop over GPU_RESOURCE_KEYS skips a key
  whose value is missing or the empty string (\<^verbatim>\<open>not val\<close>), stores the parsed integer
  under the key (\<^verbatim>\<open>caps[key] = int(str(val))\<close>, an update in place or an insertion at
  the end) and ignores a value that does not parse. \<open>int_other\<close> is the part of
  \<^verbatim>\<open>int\<close> that \<open>py_int\<close> leaves open; the functions that classify nodes pass it on.
\<close>

fun capacity_loop ::
  "(string \<Rightarrow> int option) \<Rightarrow> (string \<times> string) list \<Rightarrow> string list \<Rightarrow>
     (string \<times> int) list \<Rightarrow> (string \<times> int) list" where
  "capacity_loop int_other capacity [] caps = caps"
| "capacity_loop int_other capacity (key # keys) caps =
     (case map_of capacity key of
        None \<Rightarrow> capacity_loop int_other capacity keys caps
      | Some val \<Rightarrow>
          if val = [] then capacity_loop int_other capacity keys caps
          else (case py_int int_other val of
                  Some n \<Rightarrow> capacity_loop int_other capacity keys (AList.update key n caps)
                | None \<Rightarrow> capacity_loop int_other capacity keys caps))"

definition gpu_capacity :: "(string \<Rightarrow> int option) \<Rightarrow> V1Node \<Rightarrow> (string \<times> int) list" where
  "gpu_capacity int_other node =
     (case node_status node of
        None \<Rightarrow> []
      | Some st \<Rightarrow>
          (case status_capacity st of
             None \<Rightarrow> []
           | Some capacity \<Rightarrow>
               if capacity = [] then []
               else capacity_loop int_other capacity GPU_RESOURCE_KEYS []))"

text \<open>The dict that \<^verbatim>\<open>extract_node_info\<close> returns (source lines 199-212).\<close>

record node_info =
  name :: "string option"
  ready :: bool
  gpus :: int
  gpu_breakdown :: "(string \<times> int) list"
  labels :: "(string \<times> string) list"
  taints :: "V1Taint list"

definition extract_node_info :: "(string \<Rightarrow> int option) \<Rightarrow> V1Node \<Rightarrow> node_info" where
  "extract_node_info int_other node =
     (let caps = gpu_capacity int_other node;
          total_gpus = (if caps \<noteq> [] then sum_list (map snd caps) else 0)
      in \<lparr>name = (case node_metadata node of None \<Rightarrow> Some [] | Some m \<Rightarrow> meta_name m),
          ready = is_ready node,
          gpus = total_gpus,
          gpu_breakdown = caps,
          labels = (case node_metadata node of
                      None \<Rightarrow> []
                    | Some m \<Rightarrow> (case meta_labels m of None \<Rightarrow> [] | Some ls \<Rightarrow> ls)),
          taints = (case node_spec node of
                      None \<Rightarrow> []
                    | Some sp \<Rightarrow> (case spec_taints sp of None \<Rightarrow> [] | Some ts \<Rightarrow> ts))\<rparr>)"

text \<open>
  \<^verbatim>\<open>list_gpu_nodes\<close> (source lines 215-226): the loop appends to the two lists. The
  argument is \<^verbatim>\<open>api.list_node().items\<close>, which \<^verbatim>\<open>or []\<close> replaces when it is None.
\<close>

fun gpu_nodes_loop ::
  "(string \<Rightarrow> int option) \<Rightarrow> V1Node list \<Rightarrow> node_info list \<Rightarrow> node_info list \<Rightarrow>
     node_info list \<times> node_info list" where
  "gpu_nodes_loop int_other [] gpu_nodes ready_gpu_nodes = (gpu_nodes, ready_gpu_nodes)"
| "gpu_nodes_loop int_other (n # ns) gpu_nodes ready_gpu_nodes =
     (let info = extract_node_info int_other n in
      if gpus info > 0 then
        if ready info then
          gpu_nodes_loop int_other ns (gpu_nodes @ [info]) (ready_gpu_nodes @ [info])
        else gpu_nodes_loop int_other ns (gpu_nodes @ [info]) ready_gpu_nodes
      else gpu_nodes_loop int_other ns gpu_nodes ready_gpu_nodes)"

definition list_gpu_nodes ::
  "(string \<Rightarrow> int option) \<Rightarrow> V1Node list option \<Rightarrow> node_info list \<times> node_info list" where
  "list_gpu_nodes int_other items =
     gpu_nodes_loop int_other (case items of None \<Rightarrow> [] | Some ns \<Rightarrow> ns) [] []"

text \<open>
  The value \<^verbatim>\<open>one_shot\<close> returns (source lines 289-293), from the two lists that
  \<^verbatim>\<open>list_gpu_nodes\<close> gave it. A list is true when it is not empty.
\<close>

definition one_shot_status :: "node_info list \<Rightarrow> node_info list \<Rightarrow> int" where
  "one_shot_status gpu_nodes ready_gpu_nodes =
     (if ready_gpu_nodes \<noteq> [] then 0
      else if gpu_nodes \<noteq> [] \<and> \<not> ready_gpu_nodes \<noteq> [] then 3
      else 2)"

text \<open>The capacity mapping of a node, empty when the node has none.\<close>

definition capacity_of :: "V1Node \<Rightarrow> (string \<times> string) list" where
  "capacity_of node =
     (case node_status node of
        None \<Rightarrow> []
      | Some st \<Rightarrow> (case status_capacity st of None \<Rightarrow> [] | Some capacity \<Rightarrow> capacity))"

text \<open>What \<^verbatim>\<open>gpu_capacity\<close> can store under a key: the parse of a value that is there and not empty.\<close>

definition parsed_capacity ::
  "(string \<Rightarrow> int option) \<Rightarrow> (string \<times> string) list \<Rightarrow> string \<Rightarrow> int option" where
  "parsed_capacity int_other capacity key =
     (case map_of capacity key of
        None \<Rightarrow> None
      | Some val \<Rightarrow> if val = [] then None else py_int int_other val)"

text \<open>A node that has a status block with the given capacity and conditions, and nothing else.\<close>

definition node_with ::
  "(string \<times> string) list option \<Rightarrow> V1NodeCondition list option \<Rightarrow> V1Node" where
  "node_with capacity conds =
     \<lparr>node_metadata = None, node_spec = None,
      node_status = Some \<lparr>status_conditions = conds, status_capacity = capacity\<rparr>\<rparr>"

section \<open>Properties of classification and aggregation\<close>

lemma ready_scan_iff:
  "ready_scan conds \<longleftrightarrow> (\<exists>c\<in>set conds. cond_type c = ''Ready'' \<and> cond_status c = ''True'')"
  by (induction conds) auto

lemma capacity_loop_distinct:
  "distinct (map fst caps) \<Longrightarrow> distinct (map fst (capacity_loop p capacity keys caps))"
  by (induction keys arbitrary: caps) (auto simp: distinct_update split: option.splits)

lemma capacity_loop_map_of:
  "map_of (capacity_loop p capacity keys caps) k =
     (if k \<in> set keys \<and> parsed_capacity p capacity k \<noteq> None
      then parsed_capacity p capacity k else map_of caps k)"
  by (induction keys arbitrary: caps)
     (auto simp: parsed_capacity_def update_conv' split: option.splits)

lemma gpu_capacity_distinct: "distinct (map fst (gpu_capacity p node))"
  by (auto simp: gpu_capacity_def capacity_loop_distinct split: option.splits)

lemma gpu_capacity_map_of:
  "map_of (gpu_capacity p node) k =
     (if k \<in> set GPU_RESOURCE_KEYS then parsed_capacity p (capacity_of node) k else None)"
  by (auto simp: gpu_capacity_def capacity_of_def capacity_loop_map_of parsed_capacity_def
      split: option.splits)

lemma gpu_capacity_mem:
  "(k, n) \<in> set (gpu_capacity p node) \<longleftrightarrow>
     k \<in> set GPU_RESOURCE_KEYS \<and>
     (\<exists>v. map_of (capacity_of node) k = Some v \<and> v \<noteq> [] \<and> py_int p v = Some n)"
proof -
  have "(k, n) \<in> set (gpu_capacity p node) \<longleftrightarrow> map_of (gpu_capacity p node) k = Some n"
    using gpu_capacity_distinct by simp
  then show ?thesis
    by (auto simp: gpu_capacity_map_of parsed_capacity_def split: option.splits if_splits)
qed

lemma gpu_nodes_loop_filter:
  "gpu_nodes_loop p ns g r =
     (g @ filter (\<lambda>i. gpus i > 0) (map (extract_node_info p) ns),
      r @ filter ready (filter (\<lambda>i. gpus i > 0) (map (extract_node_info p) ns)))"
  by (induction ns arbitrary: g r) (auto simp: Let_def)

lemma list_gpu_nodes_filter:
  "list_gpu_nodes p items = (g, r) \<Longrightarrow>
     g = filter (\<lambda>i. gpus i > 0)
           (map (extract_node_info p) (case items of None \<Rightarrow> [] | Some ns \<Rightarrow> ns))
     \<and> r = filter ready g"
  by (auto simp add: list_gpu_nodes_def gpu_nodes_loop_filter simp del: filter_filter)

lemma one_shot_status_lengths:
  "one_shot_status g r = (if 1 \<le> length r then 0 else if 1 \<le> length g then 3 else 2)"
  by (cases r; cases g) (simp_all add: one_shot_status_def)

lemma py_int_examples:
  "py_int p ''2'' = Some 2" "py_int p ''1'' = Some 1" "py_int p ''0'' = Some 0"
  by (simp_all add: py_int_def is_ascii_digit_def)

text \<open>
  Claim C2, as the code has it. For every node, the \<open>gpus\<close> field of the classified
  node is the sum of the values of \<open>gpu_breakdown\<close>; the keys of \<open>gpu_breakdown\<close> are
  distinct; a pair \<open>(k, n)\<close> is in \<open>gpu_breakdown\<close> exactly when \<open>k\<close> is a recognized
  resource key whose capacity value is present, not the empty string, and parses to the
  integer \<open>n\<close> (so a value that does not parse never appears, while the parsed integer
  itself is not tested and may be zero or negative); and a node with no capacity data has
  \<open>gpus = 0\<close> and an empty breakdown.
\<close>

theorem extract_node_info_gpu_accounting:
  "gpus (extract_node_info p node) = sum_list (map snd (gpu_breakdown (extract_node_info p node)))
   \<and> distinct (map fst (gpu_breakdown (extract_node_info p node)))
   \<and> ((k, n) \<in> set (gpu_breakdown (extract_node_info p node)) \<longleftrightarrow>
        k \<in> set GPU_RESOURCE_KEYS \<and>
        (\<exists>v. map_of (capacity_of node) k = Some v \<and> v \<noteq> [] \<and> py_int p v = Some n))
   \<and> (capacity_of node = [] \<longrightarrow>
        gpus (extract_node_info p node) = 0 \<and> gpu_breakdown (extract_node_info p node) = [])"
proof -
  have a: "gpu_breakdown (extract_node_info p node) = gpu_capacity p node"
    by (simp add: extract_node_info_def Let_def)
  have b: "gpus (extract_node_info p node) = sum_list (map snd (gpu_capacity p node))"
    by (simp add: extract_node_info_def Let_def)
  have c: "capacity_of node = [] \<Longrightarrow> gpu_capacity p node = []"
    by (auto simp: gpu_capacity_def capacity_of_def split: option.splits)
  show ?thesis
    using c by (simp add: a b gpu_capacity_distinct gpu_capacity_mem)
qed

theorem extract_node_info_gpu_accounting_witness:
  "capacity_of (node_with None None) = []
   \<and> gpus (extract_node_info no_other_int (node_with None None)) = 0
   \<and> gpu_breakdown (extract_node_info no_other_int (node_with None None)) = []
   \<and> (''nvidia.com/gpu'', 2) \<in> set (gpu_breakdown (extract_node_info no_other_int
         (node_with (Some [(''nvidia.com/gpu'', ''2''), (''amd.com/gpu'', ''abc'')]) None)))
   \<and> (''amd.com/gpu'', 7) \<notin> set (gpu_breakdown (extract_node_info no_other_int
         (node_with (Some [(''nvidia.com/gpu'', ''2''), (''amd.com/gpu'', ''abc'')]) None)))"
proof -
  let ?n = "node_with (Some [(''nvidia.com/gpu'', ''2''), (''amd.com/gpu'', ''abc'')]) None"
  have h: "capacity_of (node_with None None) = []"
    by (simp add: capacity_of_def node_with_def)
  have c: "capacity_of ?n = [(''nvidia.com/gpu'', ''2''), (''amd.com/gpu'', ''abc'')]"
    by (simp add: capacity_of_def node_with_def)
  have k: "''nvidia.com/gpu'' \<in> set GPU_RESOURCE_KEYS" "''amd.com/gpu'' \<in> set GPU_RESOURCE_KEYS"
    by (simp_all add: GPU_RESOURCE_KEYS_def)
  show ?thesis
    using h k extract_node_info_gpu_accounting [of no_other_int "node_with None None"]
      extract_node_info_gpu_accounting [of no_other_int ?n "''nvidia.com/gpu''" 2]
      extract_node_info_gpu_accounting [of no_other_int ?n "''amd.com/gpu''" 7]
    by (simp add: c py_int_examples py_int_def is_ascii_digit_def no_other_int_def)
qed

text \<open>
  Claim C2 as the spec states it fails: a recognized key whose capacity value is the
  string "0" is stored in \<open>gpu_breakdown\<close> with the value 0, because the test
  \<^verbatim>\<open>if not val\<close> is made on the string, which is not empty, and not on the parsed integer.
\<close>

theorem gpu_breakdown_zero_entry_counterexample:
  "(''nvidia.com/gpu'', 0) \<in> set (gpu_breakdown (extract_node_info no_other_int
      (node_with (Some [(''nvidia.com/gpu'', ''0'')]) None)))"
  by code_simp

text \<open>
  Claim C5. The \<open>ready\<close> field of a classified node is the value of \<^verbatim>\<open>is_ready\<close>, and
  it is true exactly when the node has a status block with a condition list that holds an
  entry whose type is "Ready" and whose status is the string "True". Any other status
  string, no such entry, no condition list or no status block gives false.
\<close>

theorem is_ready_iff_ready_condition_true:
  "ready (extract_node_info p node) = is_ready node \<and>
   (is_ready node \<longleftrightarrow>
      (\<exists>st conds. node_status node = Some st \<and> status_conditions st = Some conds \<and>
         (\<exists>c\<in>set conds. cond_type c = ''Ready'' \<and> cond_status c = ''True'')))"
  by (auto simp: extract_node_info_def Let_def is_ready_def ready_scan_iff split: option.splits)

theorem is_ready_iff_ready_condition_true_witness:
  "ready (extract_node_info no_other_int (node_with None
      (Some [\<lparr>cond_type = ''MemoryPressure'', cond_status = ''False''\<rparr>,
             \<lparr>cond_type = ''Ready'', cond_status = ''True''\<rparr>])))
   \<and> \<not> ready (extract_node_info no_other_int (node_with None
      (Some [\<lparr>cond_type = ''Ready'', cond_status = ''true''\<rparr>])))
   \<and> \<not> ready (extract_node_info no_other_int (node_with None
      (Some [\<lparr>cond_type = ''Ready'', cond_status = ''Unknown''\<rparr>])))
   \<and> \<not> ready (extract_node_info no_other_int (node_with None None))
   \<and> \<not> ready (extract_node_info no_other_int
        \<lparr>node_metadata = None, node_spec = None, node_status = None\<rparr>)"
  using is_ready_iff_ready_condition_true [of no_other_int "node_with None
      (Some [\<lparr>cond_type = ''MemoryPressure'', cond_status = ''False''\<rparr>,
             \<lparr>cond_type = ''Ready'', cond_status = ''True''\<rparr>])"]
    is_ready_iff_ready_condition_true [of no_other_int "node_with None
      (Some [\<lparr>cond_type = ''Ready'', cond_status = ''true''\<rparr>])"]
    is_ready_iff_ready_condition_true [of no_other_int "node_with None
      (Some [\<lparr>cond_type = ''Ready'', cond_status = ''Unknown''\<rparr>])"]
    is_ready_iff_ready_condition_true [of no_other_int "node_with None None"]
    is_ready_iff_ready_condition_true
      [of no_other_int "\<lparr>node_metadata = None, node_spec = None, node_status = None\<rparr>"]
  by (simp add: node_with_def)

text \<open>
  Claim C7. For every node list, \<^verbatim>\<open>list_gpu_nodes\<close> classifies each node in listing
  order; its first result is exactly the classified nodes with \<open>gpus > 0\<close>, in listing
  order, and its second result is exactly the nodes of the first whose \<open>ready\<close> field is
  true, in the same order.
\<close>

theorem list_gpu_nodes_partition:
  "list_gpu_nodes p items =
     (filter (\<lambda>i. gpus i > 0)
        (map (extract_node_info p) (case items of None \<Rightarrow> [] | Some ns \<Rightarrow> ns)),
      filter ready (fst (list_gpu_nodes p items)))"
  by (simp add: list_gpu_nodes_def gpu_nodes_loop_filter)

text \<open>
  Claim C3. For the two lists that \<^verbatim>\<open>list_gpu_nodes\<close> returns, the status that
  \<^verbatim>\<open>one_shot\<close> returns is 0 exactly when there is at least one ready GPU node, 3
  exactly when there is at least one GPU node and no ready GPU node, and 2 exactly when
  there is no GPU node. The ready GPU nodes are never more than the GPU nodes, so the
  three cases exclude each other; the status is always one of 0, 3 and 2; and it depends
  on the two lists through their lengths only.
\<close>

theorem one_shot_status_verdict:
  "(list_gpu_nodes p items = (g, r) \<longrightarrow>
      length r \<le> length g \<and>
      (one_shot_status g r = 0 \<longleftrightarrow> length r \<ge> 1) \<and>
      (one_shot_status g r = 3 \<longleftrightarrow> length g \<ge> 1 \<and> length r = 0) \<and>
      (one_shot_status g r = 2 \<longleftrightarrow> length g = 0))
   \<and> (length g = length g' \<and> length r = length r' \<longrightarrow>
        one_shot_status g r = one_shot_status g' r')
   \<and> (one_shot_status g r = 0 \<or> one_shot_status g r = 3 \<or> one_shot_status g r = 2)"
proof -
  have le: "length r \<le> length g" if "list_gpu_nodes p items = (g, r)"
  proof -
    from that have "r = filter ready g"
      by (simp add: list_gpu_nodes_filter)
    then show ?thesis by simp
  qed
  have "length r \<le> length g \<Longrightarrow> (one_shot_status g r = 2 \<longleftrightarrow> length g = 0)"
    by (cases g; cases r) (simp_all add: one_shot_status_def)
  then show ?thesis
    using le by (auto simp add: one_shot_status_lengths Suc_le_eq)
qed

theorem one_shot_status_verdict_witness:
  "list_gpu_nodes no_other_int (Some [node_with (Some [(''amd.com/gpu'', ''1'')])
                           (Some [\<lparr>cond_type = ''Ready'', cond_status = ''False''\<rparr>])]) =
     ([\<lparr>name = Some [], ready = False, gpus = 1, gpu_breakdown = [(''amd.com/gpu'', 1)],
        labels = [], taints = []\<rparr>], [])
   \<and> one_shot_status
        [\<lparr>name = Some [], ready = False, gpus = 1, gpu_breakdown = [(''amd.com/gpu'', 1)],
          labels = [], taints = []\<rparr>] [] = 3
   \<and> one_shot_status
        [\<lparr>name = Some [], ready = False, gpus = 1, gpu_breakdown = [(''amd.com/gpu'', 1)],
          labels = [], taints = []\<rparr>] [] =
     one_shot_status
        [\<lparr>name = Some ''n'', ready = True, gpus = 4, gpu_breakdown = [], labels = [],
          taints = []\<rparr>] []"
proof -
  let ?items = "Some [node_with (Some [(''amd.com/gpu'', ''1'')])
                           (Some [\<lparr>cond_type = ''Ready'', cond_status = ''False''\<rparr>])]"
  let ?i = "\<lparr>name = Some [], ready = False, gpus = 1, gpu_breakdown = [(''amd.com/gpu'', 1)],
        labels = [], taints = []\<rparr>"
  have e: "list_gpu_nodes no_other_int ?items = ([?i], [])"
    by code_simp
  have l: "length [?i] = length [\<lparr>name = Some ''n'', ready = True, gpus = 4, gpu_breakdown = [], labels = [],
          taints = []\<rparr>] \<and> length ([] :: node_info list) = length ([] :: node_info list)"
    by simp
  show ?thesis
    using e l one_shot_status_verdict [of no_other_int ?items "[?i]" "[]"
       "[\<lparr>name = Some ''n'', ready = True, gpus = 4, gpu_breakdown = [], labels = [],
          taints = []\<rparr>]" "[]"]
    by simp
qed

section \<open>Properties of notification delivery\<close>

lemma posts_append [simp]: "posts (xs @ ys) = posts xs @ posts ys"
  by (induction xs rule: posts.induct) simp_all

lemma sleeps_append [simp]: "sleeps (xs @ ys) = sleeps xs @ sleeps ys"
  by (induction xs rule: sleeps.induct) simp_all

lemma fst_emit [simp]: "fst (emit es r) = fst r"
  by (simp add: emit_def)

lemma snd_emit [simp]: "snd (emit es r) = es @ snd r"
  by (simp add: emit_def)

lemma emit_emit: "emit es (emit es' r) = emit (es @ es') r"
  by (simp add: emit_def)

lemma emit_Nil [simp]: "emit [] r = r"
  by (simp add: emit_def)

lemma time_sleep_None_nonneg: "time_sleep os rd = None \<Longrightarrow> 0 \<le> rd"
  by (simp add: time_sleep_def split: option.splits if_splits)

lemma on_network_error_unfold:
  "on_network_error os a mr rd e k =
     (if retryable e then
        if int a < mr then
          if time_sleep os rd = None then
            emit [Log (LogAttemptFailed (a + 1) (mr + 1) e), Log (LogRetryWait rd), Sleep rd] k
          else
            (Inl (the (time_sleep os rd)),
             [Log (LogAttemptFailed (a + 1) (mr + 1) e), Log (LogRetryWait rd)])
        else (Inr False, [Log (LogFinalFailure e)])
      else (Inr False, [Log (LogFailure e)]))"
  by (simp add: on_network_error_def split: option.splits)

lemma attempt_loop_posts_prefix:
  "prefix (posts (snd (attempt_loop u b post os mr rd as))) as"
  by (induction as) (auto simp: on_network_error_unfold split: response.splits)

lemma attempt_loop_sleeps_delay:
  "set (sleeps (snd (attempt_loop u b post os mr rd as))) \<subseteq> {rd}"
  by (induction as) (auto simp: on_network_error_unfold split: response.splits)

lemma attempt_loop_sleeps_complete:
  "sleeps (snd (attempt_loop u b post os mr rd as)) \<noteq> [] \<Longrightarrow> time_sleep os rd = None"
  by (induction as) (auto simp: on_network_error_unfold split: response.splits if_splits)

lemma attempt_loop_sleeps_nonneg:
  "sleeps (snd (attempt_loop u b post os mr rd as)) \<noteq> [] \<Longrightarrow> 0 \<le> rd"
  by (rule time_sleep_None_nonneg) (rule attempt_loop_sleeps_complete)

lemma attempt_loop_sleeps_count:
  "length (sleeps (snd (attempt_loop u b post os mr rd as))) \<le>
     length (filter (\<lambda>a. int a < mr) as)"
  by (induction as) (auto simp: on_network_error_unfold split: response.splits)







lemma prefix_upt:
  "prefix xs [0..<n] \<Longrightarrow> xs = [0..<length xs] \<and> length xs \<le> n"
proof -
  assume "prefix xs [0..<n]"
  then obtain ys where h: "[0..<n] = xs @ ys" by (auto simp: prefix_def)
  from arg_cong [OF h, of length] have l: "length xs \<le> n" by simp
  have "take (length xs) [0..<n] = xs" using h by simp
  then show ?thesis using l by (simp add: take_upt)
qed

lemma filter_upt_count:
  "length (filter (\<lambda>a. int a < mr) [0..<n]) \<le> nat mr"
proof -
  let ?xs = "filter (\<lambda>a. int a < mr) [0..<n]"
  have "distinct ?xs" by simp
  then have "length ?xs = card (set ?xs)" by (rule distinct_card [symmetric])
  also have "\<dots> \<le> card {0..<nat mr}"
    by (rule card_mono) auto
  finally show ?thesis by simp
qed


lemma attempt_loop_length:
  "length (snd (attempt_loop u b post os mr rd as)) \<le> 4 * length as"
  by (induction as) (auto simp: on_network_error_unfold split: response.splits)

lemma send_slack_message_cases:
  "send_slack_message w m usr post os mr rd = (Inr False, []) \<or>
   (\<exists>url. w = Some url \<and> url \<noteq> [] \<and>
      send_slack_message w m usr post os mr rd =
        attempt_loop url \<lparr>text_field = m, username = usr, icon_emoji = '':robot_face:''\<rparr>
          post os mr rd [0..<nat (mr + 1)])"
  by (cases w) (auto simp: send_slack_message_def py_range_def)

text \<open>
  Claim C9. When the webhook URL is absent (None) or the empty string,
  \<^verbatim>\<open>send_slack_message\<close> returns False at once: no POST is made, nothing is logged and
  nothing sleeps, whatever the other arguments are.
\<close>

theorem send_slack_message_no_webhook:
  "send_slack_message None message user post os_sleep max_retries retry_delay = (Inr False, [])
   \<and> send_slack_message (Some []) message user post os_sleep max_retries retry_delay = (Inr False, [])"
  by (simp add: send_slack_message_def)

text \<open>
  Claim C10. For every non-empty webhook URL and every \<open>max_retries < 0\<close> the range of the
  attempt loop is empty, so \<^verbatim>\<open>send_slack_message\<close> falls through to its last line and
  returns False with no POST and no sleep.
\<close>

theorem send_slack_message_negative_retries:
  "url \<noteq> [] \<Longrightarrow> max_retries < 0 \<Longrightarrow>
     send_slack_message (Some url) message user post os_sleep max_retries retry_delay = (Inr False, [])"
  by (simp add: send_slack_message_def py_range_def)

theorem send_slack_message_negative_retries_witness:
  "''https://hooks.slack.com/services/T0/B0/x'' \<noteq> [] \<and> (- 1 :: int) < 0 \<and>
   send_slack_message (Some ''https://hooks.slack.com/services/T0/B0/x'') ''text''
     ''k8s-gpu-checker'' (scripted [] (HttpResponse 200 ''ok'')) no_sleep_error (- 1) 30 = (Inr False, [])"
  using send_slack_message_negative_retries
    [of "''https://hooks.slack.com/services/T0/B0/x''" "- 1" "''text''" "''k8s-gpu-checker''"
        "scripted [] (HttpResponse 200 ''ok'')" no_sleep_error 30]
  by simp

text \<open>
  Claim C1 says that a response with a status other than 200 ends the delivery with False
  after that attempt. The code only logs such a response: with the default
  \<open>max_retries = 3\<close> and a webhook that answers every POST with HTTP 500, all four
  attempts are made, back to back with no sleep, before False is returned; and when the
  second POST is answered with 200, the delivery returns True.
\<close>

theorem send_slack_message_http_500_is_retried:
  "fst (send_slack_message (Some ''https://hooks.slack.com/services/T0/B0/x'') ''text''
          ''k8s-gpu-checker'' (scripted [] (HttpResponse 500 ''error'')) no_sleep_error 3 30) = Inr False
   \<and> posts (snd (send_slack_message (Some ''https://hooks.slack.com/services/T0/B0/x'') ''text''
          ''k8s-gpu-checker'' (scripted [] (HttpResponse 500 ''error'')) no_sleep_error 3 30)) = [0, 1, 2, 3]
   \<and> sleeps (snd (send_slack_message (Some ''https://hooks.slack.com/services/T0/B0/x'') ''text''
          ''k8s-gpu-checker'' (scripted [] (HttpResponse 500 ''error'')) no_sleep_error 3 30)) = []
   \<and> fst (send_slack_message (Some ''https://hooks.slack.com/services/T0/B0/x'') ''text''
          ''k8s-gpu-checker'' (scripted [HttpResponse 500 ''error''] (HttpResponse 200 ''ok'')) no_sleep_error 3 30)
       = Inr True
   \<and> posts (snd (send_slack_message (Some ''https://hooks.slack.com/services/T0/B0/x'') ''text''
          ''k8s-gpu-checker'' (scripted [HttpResponse 500 ''error''] (HttpResponse 200 ''ok'')) no_sleep_error 3 30))
       = [0, 1]"
  by code_simp




text \<open>
  Claim C6, as the code has it. Every delivery is finite: the loop runs over the finite
  range of attempt numbers and a run has at most four effects per attempt. The attempts
  made are numbered 0, 1, 2, ... with no gap, and there are at most
  \<open>max 0 (max_retries + 1)\<close> of them; every completed sleep lasts \<open>retry_delay\<close>, there
  are at most \<open>max 0 max_retries\<close> of them, and the total time slept lies between 0 and
  \<open>max 0 max_retries * max 0 retry_delay\<close>. When \<open>max_retries\<close> and \<open>retry_delay\<close> are
  not negative these are the bounds \<open>max_retries + 1\<close>, \<open>max_retries\<close> and
  \<open>max_retries * retry_delay\<close>.
\<close>

theorem send_slack_message_bounds:
  "length (snd (send_slack_message w m usr post os mr rd)) \<le> 4 * nat (mr + 1)
   \<and> posts (snd (send_slack_message w m usr post os mr rd)) =
       [0..<length (posts (snd (send_slack_message w m usr post os mr rd)))]
   \<and> int (length (posts (snd (send_slack_message w m usr post os mr rd)))) \<le> max 0 (mr + 1)
   \<and> sleeps (snd (send_slack_message w m usr post os mr rd)) =
       replicate (length (sleeps (snd (send_slack_message w m usr post os mr rd)))) rd
   \<and> int (length (sleeps (snd (send_slack_message w m usr post os mr rd)))) \<le> max 0 mr
   \<and> 0 \<le> sum_list (sleeps (snd (send_slack_message w m usr post os mr rd)))
   \<and> sum_list (sleeps (snd (send_slack_message w m usr post os mr rd))) \<le> max 0 mr * max 0 rd
   \<and> (0 \<le> mr \<and> 0 \<le> rd \<longrightarrow>
        int (length (posts (snd (send_slack_message w m usr post os mr rd)))) \<le> mr + 1
        \<and> int (length (sleeps (snd (send_slack_message w m usr post os mr rd)))) \<le> mr
        \<and> sum_list (sleeps (snd (send_slack_message w m usr post os mr rd))) \<le> mr * rd)"
proof -
  let ?run = "send_slack_message w m usr post os mr rd"
  let ?ps = "posts (snd ?run)"
  let ?ss = "sleeps (snd ?run)"
  have len: "length (snd ?run) \<le> 4 * nat (mr + 1)"
    and pre: "prefix ?ps [0..<nat (mr + 1)]"
    and del: "set ?ss \<subseteq> {rd}"
    and nonneg: "?ss \<noteq> [] \<longrightarrow> 0 \<le> rd"
    and cnt: "length ?ss \<le> nat mr"
  proof -
    consider (none) "?run = (Inr False, [])"
      | (loop) url where "?run = attempt_loop url
            \<lparr>text_field = m, username = usr, icon_emoji = '':robot_face:''\<rparr> post os mr rd
            [0..<nat (mr + 1)]"
      using send_slack_message_cases [of w m usr post os mr rd] by blast
    then have "length (snd ?run) \<le> 4 * nat (mr + 1) \<and> prefix ?ps [0..<nat (mr + 1)]
        \<and> set ?ss \<subseteq> {rd} \<and> (?ss \<noteq> [] \<longrightarrow> 0 \<le> rd) \<and> length ?ss \<le> nat mr"
    proof cases
      case none
      then show ?thesis by simp
    next
      case loop
      let ?b = "\<lparr>text_field = m, username = usr, icon_emoji = '':robot_face:''\<rparr>"
      let ?as = "[0..<nat (mr + 1)]"
      have "length (sleeps (snd (attempt_loop url ?b post os mr rd ?as))) \<le> nat mr"
        using attempt_loop_sleeps_count [of url ?b post os mr rd ?as] filter_upt_count [of mr "nat (mr + 1)"]
        by linarith
      moreover have "length (snd (attempt_loop url ?b post os mr rd ?as)) \<le> 4 * nat (mr + 1)"
        using attempt_loop_length [of url ?b post os mr rd ?as] by simp
      ultimately show ?thesis
        unfolding loop
        using attempt_loop_posts_prefix [of url ?b post os mr rd ?as]
          attempt_loop_sleeps_delay [of url ?b post os mr rd ?as]
          attempt_loop_sleeps_nonneg [of url ?b post os mr rd ?as]
        by blast
    qed
    then show "length (snd ?run) \<le> 4 * nat (mr + 1)" "prefix ?ps [0..<nat (mr + 1)]"
      "set ?ss \<subseteq> {rd}" "?ss \<noteq> [] \<longrightarrow> 0 \<le> rd" "length ?ss \<le> nat mr"
      by blast+
  qed
  from prefix_upt [OF pre] have ps: "?ps = [0..<length ?ps]" and pl: "length ?ps \<le> nat (mr + 1)"
    by blast+
  from del have rep: "?ss = replicate (length ?ss) rd"
    by (intro replicate_length_same [symmetric]) auto
  have sum: "sum_list ?ss = int (length ?ss) * rd"
    using arg_cong [OF rep, of sum_list] by (simp add: sum_list_replicate)
  have s0: "0 \<le> sum_list ?ss"
  proof (cases "?ss = []")
    case True
    then show ?thesis by simp
  next
    case False
    with nonneg have "0 \<le> rd" by blast
    then show ?thesis unfolding sum by simp
  qed
  have s1: "sum_list ?ss \<le> max 0 mr * max 0 rd"
  proof (cases "?ss = []")
    case True
    then show ?thesis by simp
  next
    case False
    with nonneg have r: "0 \<le> rd" by blast
    from cnt have "int (length ?ss) \<le> max 0 mr" by linarith
    then have "int (length ?ss) * rd \<le> max 0 mr * rd"
      using r by (rule mult_right_mono)
    then show ?thesis unfolding sum using r by (simp add: max_def)
  qed
  have c1: "int (length ?ps) \<le> max 0 (mr + 1)" using pl by linarith
  have c2: "int (length ?ss) \<le> max 0 mr" using cnt by linarith
  have last: "0 \<le> mr \<and> 0 \<le> rd \<longrightarrow>
      int (length ?ps) \<le> mr + 1 \<and> int (length ?ss) \<le> mr \<and> sum_list ?ss \<le> mr * rd"
    using c1 c2 s1 by (auto simp: max_def)
  show ?thesis
    using len ps c1 rep c2 s0 s1 last by blast
qed

theorem send_slack_message_bounds_witness:
  "(0 :: int) \<le> 2 \<and> (0 :: int) \<le> 1
   \<and> posts (snd (send_slack_message (Some ''https://hooks.slack.com/services/T0/B0/x'')
        ''text'' ''k8s-gpu-checker''
        (scripted [ConnectionError ''Connection reset by peer'',
                   ConnectionError ''Connection reset by peer''] (HttpResponse 200 ''ok'')) no_sleep_error 2 1))
       = [0, 1, 2]
   \<and> sleeps (snd (send_slack_message (Some ''https://hooks.slack.com/services/T0/B0/x'')
        ''text'' ''k8s-gpu-checker''
        (scripted [ConnectionError ''Connection reset by peer'',
                   ConnectionError ''Connection reset by peer''] (HttpResponse 200 ''ok'')) no_sleep_error 2 1))
       = [1, 1]
   \<and> int (length (posts (snd (send_slack_message (Some ''https://hooks.slack.com/services/T0/B0/x'')
        ''text'' ''k8s-gpu-checker''
        (scripted [ConnectionError ''Connection reset by peer'',
                   ConnectionError ''Connection reset by peer''] (HttpResponse 200 ''ok'')) no_sleep_error 2 1))))
       \<le> 2 + 1
   \<and> int (length (sleeps (snd (send_slack_message (Some ''https://hooks.slack.com/services/T0/B0/x'')
        ''text'' ''k8s-gpu-checker''
        (scripted [ConnectionError ''Connection reset by peer'',
                   ConnectionError ''Connection reset by peer''] (HttpResponse 200 ''ok'')) no_sleep_error 2 1))))
       \<le> 2
   \<and> sum_list (sleeps (snd (send_slack_message (Some ''https://hooks.slack.com/services/T0/B0/x'')
        ''text'' ''k8s-gpu-checker''
        (scripted [ConnectionError ''Connection reset by peer'',
                   ConnectionError ''Connection reset by peer''] (HttpResponse 200 ''ok'')) no_sleep_error 2 1)))
       \<le> 2 * 1"
proof -
  let ?run = "send_slack_message (Some ''https://hooks.slack.com/services/T0/B0/x'')
        ''text'' ''k8s-gpu-checker''
        (scripted [ConnectionError ''Connection reset by peer'',
                   ConnectionError ''Connection reset by peer''] (HttpResponse 200 ''ok'')) no_sleep_error 2 1"
  have e: "posts (snd ?run) = [0, 1, 2]" "sleeps (snd ?run) = [1, 1]"
    by code_simp+
  have h: "(0 :: int) \<le> 2 \<and> (0 :: int) \<le> 1" by simp
  from h send_slack_message_bounds [of "Some ''https://hooks.slack.com/services/T0/B0/x''"
      "''text''" "''k8s-gpu-checker''"
      "scripted [ConnectionError ''Connection reset by peer'',
                 ConnectionError ''Connection reset by peer''] (HttpResponse 200 ''ok'')"
      no_sleep_error 2 1]
  have "int (length (posts (snd ?run))) \<le> 2 + 1 \<and> int (length (sleeps (snd ?run))) \<le> 2
      \<and> sum_list (sleeps (snd ?run)) \<le> 2 * 1"
    by blast
  with e h show ?thesis by blast
qed

text \<open>
  Claim C6 as the spec states it fails for a negative \<open>max_retries\<close>: with
  \<open>max_retries = -1\<close> no sleep is made, and zero sleeps are more than \<open>max_retries\<close>
  sleeps and zero seconds more than \<open>max_retries * retry_delay = -30\<close> seconds.
\<close>

theorem send_slack_message_bounds_counterexample:
  "sleeps (snd (send_slack_message (Some ''https://hooks.slack.com/services/T0/B0/x'')
        ''text'' ''k8s-gpu-checker'' (scripted [] (HttpResponse 200 ''ok'')) no_sleep_error (- 1) 30)) = []
   \<and> \<not> int (length (sleeps (snd (send_slack_message
        (Some ''https://hooks.slack.com/services/T0/B0/x'')
        ''text'' ''k8s-gpu-checker'' (scripted [] (HttpResponse 200 ''ok'')) no_sleep_error (- 1) 30)))) \<le> - 1
   \<and> \<not> sum_list (sleeps (snd (send_slack_message
        (Some ''https://hooks.slack.com/services/T0/B0/x'')
        ''text'' ''k8s-gpu-checker'' (scripted [] (HttpResponse 200 ''ok'')) no_sleep_error (- 1) 30)))
        \<le> (- 1) * 30"
  by (simp add: send_slack_message_def py_range_def)




end
